theory Spec2Isabelle
  imports Main "HOL-Library.Word"
begin

unbundle bit_operations_syntax

section \<open>Data model\<close>

text \<open>
  A Node \<^verbatim>\<open>Buffer\<close> is a list of bytes. Every function of \<^verbatim>\<open>service.js\<close> that
  the source guards with \<^verbatim>\<open>throw new Error(msg)\<close> returns a sum here, \<open>Inl\<close> carrying
  the thrown error.
\<close>

type_synonym byte = "8 word"
type_synonym bytes = "byte list"

datatype error =
    Error string  \<comment> \<open>\<^verbatim>\<open>throw new Error(msg)\<close>, also when raised by the RPC client\<close>
  | TypeError     \<comment> \<open>raised by the platform when \<^verbatim>\<open>undefined\<close> is used as a Buffer\<close>
  | TfTypeError   \<comment> \<open>raised by the argument checks of \<^verbatim>\<open>bitcoinjs-lib\<close>\<close>

text \<open>The mutable \<^verbatim>\<open>bitcoin.Transaction\<close> object, as far as the source touches it.\<close>

record txin =
  hash :: bytes
  index :: int
  sequence :: int
  witness :: "bytes list"

record txout =
  script :: bytes
  amount :: int

record transaction =
  version :: int
  locktime :: int
  ins :: "txin list"
  outs :: "txout list"

text \<open>
  The functions the source imports from \<^verbatim>\<open>bitcoinjs-lib\<close> and \<^verbatim>\<open>tiny-secp256k1\<close>. They
  are not part of the repository, so the model takes them as parameters.
  \<open>privateAdd\<close> and \<open>pointFromScalar\<close> return \<open>None\<close> where the library returns a
  falsy value; \<open>toOutputScript\<close>, \<open>signSchnorr\<close>, \<open>toHex\<close> and \<open>sighashV1\<close> return
  \<open>Inl\<close> where they throw. \<open>sighashV1\<close> is the digest computation inside
  \<^verbatim>\<open>tx.hashForWitnessV1\<close>, behind the argument checks that \<open>hashForWitnessV1\<close> below
  models.
\<close>

record externals =
  taggedHash :: "string \<Rightarrow> bytes \<Rightarrow> bytes"
  privateAdd :: "bytes \<Rightarrow> bytes \<Rightarrow> bytes option"
  pointFromScalar :: "bytes \<Rightarrow> bytes option"
  signSchnorr :: "bytes \<Rightarrow> bytes \<Rightarrow> error + bytes"
  toOutputScript :: "string \<Rightarrow> error + bytes"
  sighashV1 ::
    "transaction \<Rightarrow> int \<Rightarrow> bytes list \<Rightarrow> int list \<Rightarrow> int \<Rightarrow> error + bytes"
  toHex :: "transaction \<Rightarrow> error + string"

text \<open>
  The RPC client of \<^verbatim>\<open>src/rpc.js\<close>: the node's answers to the two calls that matter
  here. \<open>getBlockCount\<close> is the current chain height.
\<close>

record rpcClient =
  getBlockCount :: int
  sendRawTransaction :: "string \<Rightarrow> error + string"

record utxoObj =
  txid :: string
  vout :: int
  valueSats :: int

text \<open>The object returned by \<^verbatim>\<open>createTaprootAddress\<close>; \<open>merkleRoot = None\<close> is a missing field.\<close>

record taprootInfo =
  info_internalPubkeyFull :: bytes
  info_internalX :: bytes
  info_leaves :: "bytes list"
  info_lockHeight :: int
  info_merkleRoot :: "bytes option"

text \<open>The object returned by \<^verbatim>\<open>tweakPrivateKey\<close>.\<close>

record tweakedKey =
  key_tweakedPriv :: bytes
  key_tweakedPub :: bytes
  key_tweakedX :: bytes
  key_parity :: int

section \<open>Buffer primitives\<close>

text \<open>\<^verbatim>\<open>buf.slice(s, e)\<close> for \<open>0 \<le> s \<le> e\<close>; the end is clamped to the length.\<close>

definition slice :: "nat \<Rightarrow> nat \<Rightarrow> bytes \<Rightarrow> bytes" where
  "slice s e buf = take (e - s) (drop s buf)"

text \<open>
  \<^verbatim>\<open>Buffer.compare(a, b)\<close>: unsigned byte-wise lexicographic order, a proper prefix
  being smaller; the result is -1, 0 or 1.
\<close>

fun Buffer_compare :: "bytes \<Rightarrow> bytes \<Rightarrow> int" where
  "Buffer_compare [] [] = 0"
| "Buffer_compare [] (y # ys) = - 1"
| "Buffer_compare (x # xs) [] = 1"
| "Buffer_compare (x # xs) (y # ys) =
     (if x < y then - 1 else if y < x then 1 else Buffer_compare xs ys)"

text \<open>
  \<^verbatim>\<open>arr[i]\<close> on a JavaScript array: \<open>None\<close> is \<^verbatim>\<open>undefined\<close>, the value of a read
  outside the array.
\<close>

definition js_index :: "'a list \<Rightarrow> int \<Rightarrow> 'a option" where
  "js_index xs i = (if 0 \<le> i \<and> i < int (length xs) then Some (xs ! nat i) else None)"

text \<open>
  \<^verbatim>\<open>Buffer.concat(list)\<close> throws a TypeError when an element is \<^verbatim>\<open>undefined\<close>.
\<close>

fun Buffer_concat :: "bytes option list \<Rightarrow> error + bytes" where
  "Buffer_concat [] = Inr []"
| "Buffer_concat (None # rest) = Inl TypeError"
| "Buffer_concat (Some b # rest) =
     (case Buffer_concat rest of Inl e \<Rightarrow> Inl e | Inr bs \<Rightarrow> Inr (b @ bs))"

text \<open>
  \<^verbatim>\<open>Buffer.from(s, 'hex')\<close>: two hexadecimal digits give one byte; decoding stops at
  the first pair that is not hexadecimal, and a last single character is dropped.
\<close>

definition hexval :: "char \<Rightarrow> nat option" where
  "hexval c =
     (let n = (of_char c :: nat)
      in if 48 \<le> n \<and> n \<le> 57 then Some (n - 48)
         else if 97 \<le> n \<and> n \<le> 102 then Some (n - 87)
         else if 65 \<le> n \<and> n \<le> 70 then Some (n - 55)
         else None)"

fun Buffer_from_hex :: "string \<Rightarrow> bytes" where
  "Buffer_from_hex (c1 # c2 # rest) =
     (case hexval c1 of
        None \<Rightarrow> []
      | Some hi \<Rightarrow>
          (case hexval c2 of
             None \<Rightarrow> []
           | Some lo \<Rightarrow> of_nat (16 * hi + lo) # Buffer_from_hex rest))"
| "Buffer_from_hex cs = []"

section \<open>Taproot helpers\<close>

text \<open>\<^verbatim>\<open>tapLeafHash(scriptBuffer)\<close>: tag \<^verbatim>\<open>TapLeaf\<close>, message \<^verbatim>\<open>0xc0\<close> followed by the script.\<close>

definition tapLeafHash :: "'x externals_scheme \<Rightarrow> bytes \<Rightarrow> bytes" where
  "tapLeafHash E scriptBuffer = taggedHash E ''TapLeaf'' ([0xc0] @ scriptBuffer)"

definition tapBranchHash :: "'x externals_scheme \<Rightarrow> bytes \<Rightarrow> bytes \<Rightarrow> bytes" where
  "tapBranchHash E a b =
     (if Buffer_compare a b = - 1 then taggedHash E ''TapBranch'' (a @ b)
      else taggedHash E ''TapBranch'' (b @ a))"

text \<open>
  The inner \<^verbatim>\<open>for (i = 0; i < current.length; i += 2)\<close> loop shared by
  \<^verbatim>\<open>computeMerkleRootFromLeafHashes\<close> and \<^verbatim>\<open>computeControlBlockForIndex\<close>: adjacent
  hashes are paired, an unpaired last hash is pushed unchanged.
\<close>

fun nextLayer :: "'x externals_scheme \<Rightarrow> bytes list \<Rightarrow> bytes list" where
  "nextLayer E [] = []"
| "nextLayer E [x] = [x]"
| "nextLayer E (x # y # rest) = tapBranchHash E x y # nextLayer E rest"

lemma length_nextLayer: "length (nextLayer E xs) = (length xs + 1) div 2"
  by (induction E xs rule: nextLayer.induct) simp_all

text \<open>The \<^verbatim>\<open>while (current.length > 1)\<close> loop; it returns the final \<^verbatim>\<open>current\<close>.\<close>

function merkleLoop :: "'x externals_scheme \<Rightarrow> bytes list \<Rightarrow> bytes list" where
  "merkleLoop E current =
     (if length current > 1 then merkleLoop E (nextLayer E current) else current)"
  by pat_completeness auto
termination
  by (relation "measure (\<lambda>(E, current). length current)") (auto simp: length_nextLayer)

declare merkleLoop.simps [simp del]

text \<open>
  \<^verbatim>\<open>computeMerkleRootFromLeafHashes\<close>. The final \<^verbatim>\<open>current[0]\<close> is read from a list
  that is never empty (lemma \<open>merkleLoop_singleton\<close>); the model returns the empty
  Buffer in the unreachable case.
\<close>

definition computeMerkleRootFromLeafHashes :: "'x externals_scheme \<Rightarrow> bytes list \<Rightarrow> bytes" where
  "computeMerkleRootFromLeafHashes E leafHashArr =
     (if length leafHashArr = 0 then []
      else (case merkleLoop E leafHashArr of [] \<Rightarrow> [] | r # _ \<Rightarrow> r))"

definition computeMerkleRoot :: "'x externals_scheme \<Rightarrow> bytes list \<Rightarrow> bytes" where
  "computeMerkleRoot E scriptLeaves =
     (let leafHashes = map (tapLeafHash E) scriptLeaves
      in if length leafHashes = 1 then []
         else computeMerkleRootFromLeafHashes E leafHashes)"

text \<open>
  The \<^verbatim>\<open>while (layer.length > 1)\<close> loop of \<^verbatim>\<open>computeControlBlockForIndex\<close>, on the
  state \<open>(layer, idx, path)\<close>. \<^verbatim>\<open>idx % 2 === 0\<close> holds exactly for even \<open>idx\<close>, also
  for negative ones; \<^verbatim>\<open>Math.floor(idx / 2)\<close> is \<open>div\<close>. \<^verbatim>\<open>path.push(layer[pairIndex])\<close>
  pushes \<^verbatim>\<open>undefined\<close> when \<open>pairIndex\<close> is negative.
\<close>

function pathLoop ::
  "'x externals_scheme \<Rightarrow> bytes list \<Rightarrow> int \<Rightarrow> bytes option list \<Rightarrow> bytes option list" where
  "pathLoop E layer idx path =
     (if length layer > 1 then
        (let pairIndex = (if idx mod 2 = 0 then idx + 1 else idx - 1);
             path' = (if pairIndex < int (length layer)
                      then path @ [js_index layer pairIndex] else path)
         in pathLoop E (nextLayer E layer) (idx div 2) path')
      else path)"
  by pat_completeness auto
termination
  by (relation "measure (\<lambda>(E, layer, idx, path). length layer)") (auto simp: length_nextLayer)

declare pathLoop.simps [simp del]

definition computeControlBlockForIndex ::
  "'x externals_scheme \<Rightarrow> bytes \<Rightarrow> bytes list \<Rightarrow> int \<Rightarrow> error + bytes" where
  "computeControlBlockForIndex E internalPubkeyFull scriptLeaves targetIndex =
     (if length internalPubkeyFull \<noteq> 33
      then Inl (Error ''internalPubkeyFull must be 33-byte compressed public key'')
      else
        (let internalX = slice 1 33 internalPubkeyFull;
             parity = (if internalPubkeyFull ! 0 = 0x03 then 1 else 0 :: byte);
             leafHashes = map (tapLeafHash E) scriptLeaves
         in if length leafHashes = 1
            then Buffer_concat [Some [0xc0 OR parity], Some internalX]
            else Buffer_concat
                   ([Some [0xc0 OR parity], Some internalX] @ pathLoop E leafHashes targetIndex [])))"

text \<open>
  The \<^verbatim>\<open>path\<close> array that \<^verbatim>\<open>computeControlBlockForIndex\<close> spreads behind the header
  and the internal key: empty on the one-leaf branch, else what the loop recorded.
\<close>

definition recordedSiblings ::
  "'x externals_scheme \<Rightarrow> bytes list \<Rightarrow> int \<Rightarrow> bytes option list" where
  "recordedSiblings E scriptLeaves targetIndex =
     (if length scriptLeaves = 1 then []
      else pathLoop E (map (tapLeafHash E) scriptLeaves) targetIndex [])"

text \<open>
  \<^verbatim>\<open>tweakPrivateKey(privKey32, internalPubkeyX, merkleRoot)\<close>. \<open>merkleRoot = None\<close>
  is a missing argument, which \<^verbatim>\<open>merkleRoot || Buffer.alloc(0)\<close> replaces by the empty
  Buffer (a Buffer, even an empty one, is truthy and is kept).
\<close>

definition tweakPrivateKey ::
  "'x externals_scheme \<Rightarrow> bytes \<Rightarrow> bytes \<Rightarrow> bytes option \<Rightarrow> error + tweakedKey" where
  "tweakPrivateKey E privKey32 internalPubkeyX merkleRoot =
     (if length privKey32 \<noteq> 32 then Inl (Error ''privKey must be 32 bytes'')
      else if length internalPubkeyX \<noteq> 32 then Inl (Error ''internalPubkeyX must be 32 bytes'')
      else
        (let root = (case merkleRoot of None \<Rightarrow> [] | Some m \<Rightarrow> m);
             t = taggedHash E ''TapTweak'' (internalPubkeyX @ root)
         in case privateAdd E privKey32 t of
              None \<Rightarrow> Inl (Error ''tweak resulted in invalid private key (unlikely)'')
            | Some tweaked \<Rightarrow>
                (case pointFromScalar E tweaked of
                   None \<Rightarrow> Inl (Error ''failed to compute tweaked pubkey'')
                 | Some pub \<Rightarrow>
                     Inr \<lparr>key_tweakedPriv = tweaked,
                          key_tweakedPub = pub,
                          key_tweakedX = slice 1 33 pub,
                          key_parity = (if js_index pub 0 = Some 0x03 then 1 else 0)\<rparr>)))"

section \<open>Transactions\<close>

text \<open>
  \<^verbatim>\<open>new bitcoin.Transaction()\<close> and the methods the source calls on it, as updates of
  the record, with the argument checks of \<^verbatim>\<open>bitcoinjs-lib\<close>: \<^verbatim>\<open>addInput\<close> wants a
  32-byte hash and unsigned 32-bit index and sequence, \<^verbatim>\<open>addOutput\<close> a satoshi amount
  (from 0 to \<open>21 * 10 ^ 14\<close>), and both throw otherwise. \<^verbatim>\<open>setWitness\<close> writes to
  \<^verbatim>\<open>ins[index]\<close> and throws when there is no such input.
\<close>

definition isUInt32 :: "int \<Rightarrow> bool" where
  "isUInt32 n = (0 \<le> n \<and> n \<le> 0xffffffff)"

definition isSatoshi :: "int \<Rightarrow> bool" where
  "isSatoshi n = (0 \<le> n \<and> n \<le> 2100000000000000)"

definition newTransaction :: transaction where
  "newTransaction = \<lparr>version = 1, locktime = 0, ins = [], outs = []\<rparr>"

definition addInput :: "bytes \<Rightarrow> int \<Rightarrow> int \<Rightarrow> transaction \<Rightarrow> error + transaction" where
  "addInput h i s tx =
     (if length h = 32 \<and> isUInt32 i \<and> isUInt32 s
      then Inr (tx\<lparr>ins := ins tx @ [\<lparr>hash = h, index = i, sequence = s, witness = []\<rparr>]\<rparr>)
      else Inl TfTypeError)"

definition addOutput :: "bytes \<Rightarrow> int \<Rightarrow> transaction \<Rightarrow> error + transaction" where
  "addOutput sc v tx =
     (if isSatoshi v then Inr (tx\<lparr>outs := outs tx @ [\<lparr>script = sc, amount = v\<rparr>]\<rparr>)
      else Inl TfTypeError)"

definition setWitness :: "nat \<Rightarrow> bytes list \<Rightarrow> transaction \<Rightarrow> error + transaction" where
  "setWitness i w tx =
     (if i < length (ins tx) then Inr (tx\<lparr>ins := (ins tx)[i := (ins tx ! i)\<lparr>witness := w\<rparr>]\<rparr>)
      else Inl TypeError)"

definition SIGHASH_DEFAULT :: int where
  "SIGHASH_DEFAULT = 0"

text \<open>
  \<^verbatim>\<open>tx.hashForWitnessV1(inIndex, prevOutScripts, values, hashType)\<close>: the library
  checks the types of its arguments, then throws unless it is given one script and one
  value for every input of the transaction, and only then computes the digest.
\<close>

definition hashForWitnessV1 ::
  "'x externals_scheme \<Rightarrow> transaction \<Rightarrow> int \<Rightarrow> bytes list \<Rightarrow> int list \<Rightarrow> int \<Rightarrow> error + bytes" where
  "hashForWitnessV1 E tx inIndex prevOutScripts vals hashType =
     (if isUInt32 inIndex \<and> list_all isSatoshi vals \<and> isUInt32 hashType
      then (if length vals = length (ins tx) \<and> length prevOutScripts = length (ins tx)
            then sighashV1 E tx inIndex prevOutScripts vals hashType
            else Inl (Error ''Must supply prevout script and value for all inputs''))
      else Inl TfTypeError)"

section \<open>Spend functions\<close>

text \<open>
  Each spend function of the source builds a transaction, sets its witness and hands
  \<^verbatim>\<open>tx.toHex()\<close> to \<^verbatim>\<open>rpcClient.sendRawTransaction\<close>. The model has one function for
  the body up to \<^verbatim>\<open>tx.setWitness\<close> (suffix \<open>_tx\<close>) and one for the whole function, so
  that the witness that was assembled can be observed. The calls are in the order of
  the source, and the first one that throws ends the function.

  \<^verbatim>\<open>buildAndBroadcastScriptPathSpend\<close>: the signature list \<open>sigs\<close> is spread into the
  witness as it is. A \<open>leafIndex\<close> outside \<open>leaves\<close> reads \<^verbatim>\<open>undefined\<close>, which
  \<^verbatim>\<open>tx.setWitness\<close> refuses.
\<close>

definition buildAndBroadcastScriptPathSpend_tx ::
  "'x externals_scheme \<Rightarrow> utxoObj \<Rightarrow> taprootInfo \<Rightarrow> int \<Rightarrow> bytes list \<Rightarrow> string \<Rightarrow> int
     \<Rightarrow> error + transaction" where
  "buildAndBroadcastScriptPathSpend_tx E utxo info leafIndex sigs destination feeSats =
     (let leafScript = js_index (info_leaves info) leafIndex
      in case computeControlBlockForIndex E (info_internalPubkeyFull info) (info_leaves info) leafIndex of
           Inl e \<Rightarrow> Inl e
         | Inr controlBlock \<Rightarrow>
             (case addInput (rev (Buffer_from_hex (txid utxo))) (vout utxo) 0xffffffff
                     (newTransaction\<lparr>version := 2\<rparr>) of
                Inl e \<Rightarrow> Inl e
              | Inr tx1 \<Rightarrow>
                  (case toOutputScript E destination of
                     Inl e \<Rightarrow> Inl e
                   | Inr dest \<Rightarrow>
                       (case addOutput dest (valueSats utxo - feeSats) tx1 of
                          Inl e \<Rightarrow> Inl e
                        | Inr tx2 \<Rightarrow>
                            (case leafScript of
                               None \<Rightarrow> Inl TfTypeError
                             | Some ls \<Rightarrow> setWitness 0 (sigs @ [ls, controlBlock]) tx2)))))"

definition buildAndBroadcastScriptPathSpend ::
  "'x externals_scheme \<Rightarrow> rpcClient \<Rightarrow> utxoObj \<Rightarrow> taprootInfo \<Rightarrow> int \<Rightarrow> bytes list \<Rightarrow> string
     \<Rightarrow> int \<Rightarrow> error + string" where
  "buildAndBroadcastScriptPathSpend E rpc utxo info leafIndex sigs destination feeSats =
     (case buildAndBroadcastScriptPathSpend_tx E utxo info leafIndex sigs destination feeSats of
        Inl e \<Rightarrow> Inl e
      | Inr tx \<Rightarrow>
          (case toHex E tx of Inl e \<Rightarrow> Inl e | Inr raw \<Rightarrow> sendRawTransaction rpc raw))"

text \<open>
  \<^verbatim>\<open>spendCltvLeaf\<close>: \<open>leafIndex\<close> is the constant 1; the locktime is the lock height of
  \<open>taprootInfo\<close> and the sequence is \<^verbatim>\<open>0xfffffffe\<close>. The function takes no chain height
  and does not ask the RPC client for one. A missing leaf 1 reads \<^verbatim>\<open>undefined\<close>, which
  the sighash computation refuses.
\<close>

definition spendCltvLeaf_tx ::
  "'x externals_scheme \<Rightarrow> utxoObj \<Rightarrow> taprootInfo \<Rightarrow> bytes \<Rightarrow> string \<Rightarrow> int
     \<Rightarrow> error + transaction" where
  "spendCltvLeaf_tx E utxo info privKey32 destination feeSats =
     (let leafIndex = 1;
          leafScript = js_index (info_leaves info) leafIndex
      in case computeControlBlockForIndex E (info_internalPubkeyFull info) (info_leaves info) leafIndex of
           Inl e \<Rightarrow> Inl e
         | Inr controlBlock \<Rightarrow>
             (case addInput (rev (Buffer_from_hex (txid utxo))) (vout utxo) 0xfffffffe
                     (newTransaction\<lparr>version := 2, locktime := info_lockHeight info\<rparr>) of
                Inl e \<Rightarrow> Inl e
              | Inr tx1 \<Rightarrow>
                  (case toOutputScript E destination of
                     Inl e \<Rightarrow> Inl e
                   | Inr dest \<Rightarrow>
                       (case addOutput dest (valueSats utxo - feeSats) tx1 of
                          Inl e \<Rightarrow> Inl e
                        | Inr tx2 \<Rightarrow>
                            (case leafScript of
                               None \<Rightarrow> Inl TfTypeError
                             | Some ls \<Rightarrow>
                                 (case hashForWitnessV1 E tx2 0 [ls] [valueSats utxo] SIGHASH_DEFAULT of
                                    Inl e \<Rightarrow> Inl e
                                  | Inr sighash \<Rightarrow>
                                      (case signSchnorr E sighash privKey32 of
                                         Inl e \<Rightarrow> Inl e
                                       | Inr sig \<Rightarrow>
                                           setWitness 0 [sig, ls, controlBlock] tx2)))))))"

definition spendCltvLeaf ::
  "'x externals_scheme \<Rightarrow> rpcClient \<Rightarrow> utxoObj \<Rightarrow> taprootInfo \<Rightarrow> bytes \<Rightarrow> string \<Rightarrow> int
     \<Rightarrow> error + string" where
  "spendCltvLeaf E rpc utxo info privKey32 destination feeSats =
     (case spendCltvLeaf_tx E utxo info privKey32 destination feeSats of
        Inl e \<Rightarrow> Inl e
      | Inr tx \<Rightarrow>
          (case toHex E tx of Inl e \<Rightarrow> Inl e | Inr raw \<Rightarrow> sendRawTransaction rpc raw))"

text \<open>
  \<^verbatim>\<open>spendKeyPath\<close>: the sighash is asked for with the empty script list \<^verbatim>\<open>[]\<close> and the
  one value \<^verbatim>\<open>[utxoObj.value]\<close>, for a transaction that has one input; the signature
  of the tweaked private key would be the whole witness.
\<close>

definition spendKeyPath_tx ::
  "'x externals_scheme \<Rightarrow> utxoObj \<Rightarrow> bytes \<Rightarrow> taprootInfo \<Rightarrow> string \<Rightarrow> int
     \<Rightarrow> error + transaction" where
  "spendKeyPath_tx E utxo internalPrivKey32 info destination feeSats =
     (let root = (case info_merkleRoot info of None \<Rightarrow> [] | Some m \<Rightarrow> m)
      in case tweakPrivateKey E internalPrivKey32 (info_internalX info) (Some root) of
           Inl e \<Rightarrow> Inl e
         | Inr tweaked \<Rightarrow>
             (case addInput (rev (Buffer_from_hex (txid utxo))) (vout utxo) 0xffffffff
                     (newTransaction\<lparr>version := 2\<rparr>) of
                Inl e \<Rightarrow> Inl e
              | Inr tx1 \<Rightarrow>
                  (case toOutputScript E destination of
                     Inl e \<Rightarrow> Inl e
                   | Inr dest \<Rightarrow>
                       (case addOutput dest (valueSats utxo - feeSats) tx1 of
                          Inl e \<Rightarrow> Inl e
                        | Inr tx2 \<Rightarrow>
                            (case hashForWitnessV1 E tx2 0 [] [valueSats utxo] SIGHASH_DEFAULT of
                               Inl e \<Rightarrow> Inl e
                             | Inr sighash \<Rightarrow>
                                 (case signSchnorr E sighash (key_tweakedPriv tweaked) of
                                    Inl e \<Rightarrow> Inl e
                                  | Inr sig \<Rightarrow> setWitness 0 [sig] tx2))))))"

definition spendKeyPath ::
  "'x externals_scheme \<Rightarrow> rpcClient \<Rightarrow> utxoObj \<Rightarrow> bytes \<Rightarrow> taprootInfo \<Rightarrow> string \<Rightarrow> int
     \<Rightarrow> error + string" where
  "spendKeyPath E rpc utxo internalPrivKey32 info destination feeSats =
     (case spendKeyPath_tx E utxo internalPrivKey32 info destination feeSats of
        Inl e \<Rightarrow> Inl e
      | Inr tx \<Rightarrow>
          (case toHex E tx of Inl e \<Rightarrow> Inl e | Inr raw \<Rightarrow> sendRawTransaction rpc raw))"

section \<open>The specification's leaf encoding\<close>

text \<open>
  The compact-size encoding and the leaf hash as the specification words them, to be
  compared with \<open>tapLeafHash\<close>: one byte below \<^verbatim>\<open>0xFD\<close>, else a marker byte and the
  length in 2, 4 or 8 little-endian bytes.
\<close>

fun le_bytes :: "nat \<Rightarrow> nat \<Rightarrow> bytes" where
  "le_bytes 0 n = []"
| "le_bytes (Suc k) n = of_nat (n mod 256) # le_bytes k (n div 256)"

definition spec_compact_size :: "nat \<Rightarrow> bytes" where
  "spec_compact_size n =
     (if n < 0xFD then [of_nat n]
      else if n \<le> 0xFFFF then 0xFD # le_bytes 2 n
      else if n \<le> 0xFFFFFFFF then 0xFE # le_bytes 4 n
      else 0xFF # le_bytes 8 n)"

definition spec_LeafHash :: "'x externals_scheme \<Rightarrow> bytes \<Rightarrow> bytes" where
  "spec_LeafHash E sc = taggedHash E ''TapLeaf'' ([0xc0] @ spec_compact_size (length sc) @ sc)"

section \<open>Concrete collaborators\<close>

text \<open>
  Simple stand-ins for the external functions, used to run the model on concrete
  inputs: a 32-byte ``hash'' that keeps the first 32 bytes of its message, byte-wise
  scalar addition, a point that is its scalar behind an odd-parity prefix, a 64-byte
  signature, an address codec that knows one address, and a node at height 9 that
  accepts every transaction.
\<close>

definition demoHash :: "string \<Rightarrow> bytes \<Rightarrow> bytes" where
  "demoHash tag msg = take 32 (msg @ replicate 32 0)"

text \<open>A regtest address and the output script it decodes to.\<close>

definition demoDestination :: string where
  "demoDestination = ''bcrt1qw508d6qejxtdg4y5r3zarvary0c5xw7kygt080''"

definition demoDestinationScript :: bytes where
  "demoDestinationScript =
     [0x00, 0x14, 0x75, 0x1e, 0x76, 0xe8, 0x19, 0x91, 0x96, 0xd4, 0x54, 0x94, 0x1c, 0x45,
      0xd1, 0xb3, 0xa3, 0x23, 0xf1, 0x43, 0x3b, 0xd6]"

definition demoExternals :: externals where
  "demoExternals =
     \<lparr>taggedHash = demoHash,
      privateAdd = (\<lambda>a b. Some (map2 (+) a b)),
      pointFromScalar = (\<lambda>s. Some (0x03 # s)),
      signSchnorr = (\<lambda>d k. Inr (take 64 (d @ k @ replicate 64 0))),
      toOutputScript =
        (\<lambda>a. if a = demoDestination then Inr demoDestinationScript
             else Inl (Error ''has no matching Script'')),
      sighashV1 =
        (\<lambda>tx i scripts vals t. Inr (take 32 (concat scripts @ replicate 32 0xee))),
      toHex = (\<lambda>tx. Inr ''raw'')\<rparr>"

definition demoRpc :: rpcClient where
  "demoRpc = \<lparr>getBlockCount = 9, sendRawTransaction = (\<lambda>raw. Inr ''txid'')\<rparr>"

text \<open>An unspent output of 100000 satoshi; its transaction id is 64 hexadecimal digits.\<close>

definition demoUtxo :: utxoObj where
  "demoUtxo =
     \<lparr>txid = ''000102030405060708090a0b0c0d0e0f101112131415161718191a1b1c1d1e1f'',
      vout = 0, valueSats = 100000\<rparr>"

definition demoKey :: bytes where
  "demoKey = 0x03 # replicate 32 0x11"

text \<open>A two-leaf aggregate with lock height 10; the leaves are short byte strings.\<close>

definition demoInfo :: taprootInfo where
  "demoInfo =
     \<lparr>info_internalPubkeyFull = demoKey,
      info_internalX = slice 1 33 demoKey,
      info_leaves = [[0x20, 0xac], [0x5a, 0xb1, 0x75, 0xac]],
      info_lockHeight = 10,
      info_merkleRoot = Some (computeMerkleRoot demoExternals [[0x20, 0xac], [0x5a, 0xb1, 0x75, 0xac]])\<rparr>"

section \<open>Buffer comparison\<close>

lemma Buffer_compare_range: "Buffer_compare a b \<in> {- 1, 0, 1}"
  by (induction a b rule: Buffer_compare.induct) auto

lemma Buffer_compare_swap: "Buffer_compare b a = - Buffer_compare a b"
  by (induction a b rule: Buffer_compare.induct) auto

lemma Buffer_compare_eq: "Buffer_compare a b = 0 \<longleftrightarrow> a = b"
  by (induction a b rule: Buffer_compare.induct) auto

text \<open>The result -1 is the strict lexicographic order of the library on unsigned bytes.\<close>

lemma Buffer_compare_lexord:
  "Buffer_compare a b = - 1 \<longleftrightarrow> (a, b) \<in> lexord {(x, y). x < y}"
  by (induction a b rule: Buffer_compare.induct) auto

section \<open>Branch hash\<close>

text \<open>
  Claim C9. \<open>tapBranchHash\<close> does not depend on the position of its arguments:
  \<open>tapBranchHash a b = tapBranchHash b a\<close> for all byte strings (so for all 32-byte
  hashes), and its value is the \<^verbatim>\<open>TapBranch\<close> tagged hash of the two children
  concatenated with the lexicographically smaller one first.
\<close>

theorem tapBranchHash_commutes:
  "tapBranchHash E a b = tapBranchHash E b a \<and>
   tapBranchHash E a b =
     taggedHash E ''TapBranch'' (if (a, b) \<in> lexord {(x, y). x < y} then a @ b else b @ a)"
proof -
  have c: "tapBranchHash E a b = tapBranchHash E b a"
  proof (cases "Buffer_compare a b = - 1")
    case True
    then have "Buffer_compare b a = 1" using Buffer_compare_swap [of b a] by simp
    with True show ?thesis by (simp add: tapBranchHash_def)
  next
    case False
    show ?thesis
    proof (cases "Buffer_compare b a = - 1")
      case True
      with False show ?thesis by (simp add: tapBranchHash_def)
    next
      case nb: False
      have "Buffer_compare a b = 0"
        using False nb Buffer_compare_range [of a b] Buffer_compare_swap [of b a] by auto
      then have "a = b" by (simp add: Buffer_compare_eq)
      then show ?thesis by simp
    qed
  qed
  have l: "tapBranchHash E a b =
     taggedHash E ''TapBranch'' (if (a, b) \<in> lexord {(x, y). x < y} then a @ b else b @ a)"
    by (simp add: tapBranchHash_def Buffer_compare_lexord)
  from c l show ?thesis by blast
qed

section \<open>Merkle root\<close>

lemma demoHash_length: "length (demoHash tag msg) = 32"
  by (simp add: demoHash_def min_def)

lemma tapBranchHash_length:
  "\<forall>tag msg. length (taggedHash E tag msg) = 32 \<Longrightarrow> length (tapBranchHash E x y) = 32"
  by (simp add: tapBranchHash_def)

lemma nextLayer_nonempty: "xs \<noteq> [] \<Longrightarrow> nextLayer E xs \<noteq> []"
  by (induction E xs rule: nextLayer.induct) simp_all

text \<open>The loop ends on a single hash, so the final \<^verbatim>\<open>current[0]\<close> is always defined.\<close>

lemma merkleLoop_singleton: "xs \<noteq> [] \<Longrightarrow> \<exists>r. merkleLoop E xs = [r]"
proof (induction E xs rule: merkleLoop.induct)
  case (1 E current)
  show ?case
  proof (cases "length current > 1")
    case True
    with 1 nextLayer_nonempty [of current E] show ?thesis
      by (simp add: merkleLoop.simps [of E current])
  next
    case False
    with 1 obtain r where "current = [r]" by (cases current) auto
    then show ?thesis by (simp add: merkleLoop.simps)
  qed
qed

text \<open>From two hashes on, the last round pairs two nodes: the root is a branch hash.\<close>

lemma merkleLoop_branch:
  "length xs > 1 \<Longrightarrow> \<exists>x y. merkleLoop E xs = [tapBranchHash E x y]"
proof (induction E xs rule: merkleLoop.induct)
  case (1 E current)
  show ?case
  proof (cases "length (nextLayer E current) > 1")
    case True
    with 1 show ?thesis by (simp add: merkleLoop.simps [of E current])
  next
    case False
    with 1(2) have "length current = 2" by (simp add: length_nextLayer)
    then obtain x y where "current = [x, y]"
      by (cases current; cases "tl current") auto
    then show ?thesis by (auto simp: merkleLoop.simps)
  qed
qed

lemma computeMerkleRootFromLeafHashes_pair:
  "computeMerkleRootFromLeafHashes E [x, y] = tapBranchHash E x y"
  by (simp add: computeMerkleRootFromLeafHashes_def merkleLoop.simps)

text \<open>
  Claim C4, as stated: the Merkle root of the empty leaf sequence is rejected with an
  error and no root value is returned. The code returns a root value there, the
  zero-length Buffer.
\<close>

theorem computeMerkleRoot_empty_counterexample:
  "computeMerkleRoot demoExternals [] = []"
  by (simp add: computeMerkleRoot_def computeMerkleRootFromLeafHashes_def)

text \<open>
  Claim C4, amended. For the empty leaf sequence \<open>computeMerkleRoot\<close> raises no error:
  its guard \<^verbatim>\<open>leafHashArr.length === 0\<close> returns the zero-length Buffer, whatever the
  hash function is (nothing is hashed).
\<close>

theorem computeMerkleRoot_empty_leaves:
  "computeMerkleRoot E [] = [] \<and> computeMerkleRootFromLeafHashes E [] = []"
  by (simp add: computeMerkleRoot_def computeMerkleRootFromLeafHashes_def)

text \<open>
  Claim C5, as stated: the root is the zero-length value if and only if there is
  exactly one leaf. It fails at the empty sequence, whose root is zero-length too.
\<close>

theorem computeMerkleRoot_iff_counterexample:
  "\<not> (computeMerkleRoot demoExternals [] = [] \<longleftrightarrow> length ([] :: bytes list) = 1)"
  by (simp add: computeMerkleRoot_def computeMerkleRootFromLeafHashes_def)

text \<open>
  Claim C5, amended. With a tagged hash of 32-byte outputs, the root is the zero-length
  value if and only if the leaf sequence has at most one element (none or one), and the
  root of a two-leaf sequence \<open>[a, b]\<close> is
  \<open>tapBranchHash (tapLeafHash a) (tapLeafHash b)\<close>.
\<close>

theorem computeMerkleRoot_root:
  assumes "\<forall>tag msg. length (taggedHash E tag msg) = 32"
  shows "(computeMerkleRoot E ls = [] \<longleftrightarrow> length ls \<le> 1) \<and>
         computeMerkleRoot E [a, b] = tapBranchHash E (tapLeafHash E a) (tapLeafHash E b)"
proof -
  have two: "computeMerkleRoot E [a, b] = tapBranchHash E (tapLeafHash E a) (tapLeafHash E b)"
    by (simp add: computeMerkleRoot_def computeMerkleRootFromLeafHashes_pair)
  have small: "length ls \<le> 1 \<Longrightarrow> computeMerkleRoot E ls = []"
    by (cases ls) (simp_all add: computeMerkleRoot_def computeMerkleRootFromLeafHashes_def)
  have big: "computeMerkleRoot E ls \<noteq> []" if "length ls > 1"
  proof -
    from that have l: "length (map (tapLeafHash E) ls) > 1" by simp
    then obtain x y where "merkleLoop E (map (tapLeafHash E) ls) = [tapBranchHash E x y]"
      using merkleLoop_branch by blast
    with that have "computeMerkleRoot E ls = tapBranchHash E x y"
      by (auto simp: computeMerkleRoot_def computeMerkleRootFromLeafHashes_def)
    moreover have "length (tapBranchHash E x y) = 32"
      using assms by (rule tapBranchHash_length)
    ultimately show ?thesis by auto
  qed
  have "computeMerkleRoot E ls = [] \<longleftrightarrow> length ls \<le> 1"
    using small big by (cases "length ls \<le> 1") auto
  with two show ?thesis by blast
qed

theorem computeMerkleRoot_root_witness:
  "(\<forall>tag msg. length (taggedHash demoExternals tag msg) = 32) \<and>
   (computeMerkleRoot demoExternals [[0x51], [0x52], [0x53]] = []
      \<longleftrightarrow> length [[0x51], [0x52], [0x53 :: byte]] \<le> 1) \<and>
   computeMerkleRoot demoExternals [[0x51], [0x52]] =
     tapBranchHash demoExternals (tapLeafHash demoExternals [0x51]) (tapLeafHash demoExternals [0x52])"
proof -
  have h: "\<forall>tag msg. length (taggedHash demoExternals tag msg) = 32"
    by (simp add: demoExternals_def demoHash_length)
  from computeMerkleRoot_root [OF h] h show ?thesis by blast
qed

section \<open>Control block\<close>

lemma nextLayer_lengths:
  "\<forall>tag msg. length (taggedHash E tag msg) = 32 \<Longrightarrow> \<forall>h\<in>set layer. length h = 32
   \<Longrightarrow> \<forall>h\<in>set (nextLayer E layer). length h = 32"
  by (induction E layer rule: nextLayer.induct) (simp_all add: tapBranchHash_length)

lemma Buffer_concat_Some: "Buffer_concat (map Some xs) = Inr (concat xs)"
  by (induction xs) simp_all

lemma length_concat_const: "\<forall>s\<in>set xs. length s = n \<Longrightarrow> length (concat xs) = n * length xs"
  by (induction xs) simp_all

text \<open>
  For a non-negative index the loop never reads outside a layer: it appends defined
  hashes only, each of 32 bytes, to the path it was given.
\<close>

lemma pathLoop_Some:
  assumes H: "\<forall>tag msg. length (taggedHash E tag msg) = 32"
  shows "0 \<le> idx \<Longrightarrow> \<forall>h\<in>set layer. length h = 32
    \<Longrightarrow> \<exists>sibs. pathLoop E layer idx path = path @ map Some sibs \<and> (\<forall>s\<in>set sibs. length s = 32)"
  using H
proof (induction E layer idx path rule: pathLoop.induct)
  case (1 E layer idx path)
  show ?case
  proof (cases "length layer > 1")
    case False
    then have "pathLoop E layer idx path = path @ map Some []"
      by (simp add: pathLoop.simps)
    then show ?thesis by (metis empty_iff list.set(1))
  next
    case True
    define pairIndex where "pairIndex = (if idx mod 2 = 0 then idx + 1 else idx - 1)"
    define path' where "path' = (if pairIndex < int (length layer)
                      then path @ [js_index layer pairIndex] else path)"
    have unfold: "pathLoop E layer idx path = pathLoop E (nextLayer E layer) (idx div 2) path'"
      using True by (simp add: pathLoop.simps [of E layer idx path] pairIndex_def path'_def Let_def)
    have nonneg: "0 \<le> pairIndex"
      using \<open>0 \<le> idx\<close> unfolding pairIndex_def by presburger
    have half: "0 \<le> idx div 2" using \<open>0 \<le> idx\<close> by simp
    have lens: "\<forall>h\<in>set (nextLayer E layer). length h = 32"
      using nextLayer_lengths [OF 1(4) 1(3)] .
    from "1.IH" [OF True pairIndex_def path'_def half lens 1(4)]
    obtain sibs where sibs: "pathLoop E (nextLayer E layer) (idx div 2) path' = path' @ map Some sibs"
      and sl: "\<forall>s\<in>set sibs. length s = 32" by blast
    show ?thesis
    proof (cases "pairIndex < int (length layer)")
      case False
      with sibs sl unfold show ?thesis by (auto simp: path'_def)
    next
      case lt: True
      then have j: "js_index layer pairIndex = Some (layer ! nat pairIndex)"
        using nonneg by (simp add: js_index_def)
      have "nat pairIndex < length layer" using lt nonneg by simp
      then have l32: "length (layer ! nat pairIndex) = 32" using 1(3) by simp
      have "pathLoop E layer idx path = path @ map Some ((layer ! nat pairIndex) # sibs)"
        using unfold sibs lt j by (simp add: path'_def)
      moreover have "\<forall>s\<in>set ((layer ! nat pairIndex) # sibs). length s = 32"
        using l32 sl by simp
      ultimately show ?thesis by blast
    qed
  qed
qed

text \<open>
  The loop appends to the path it was given, and one round records the sibling in the
  current layer before those of the layers above: the path is in leaf-to-root order.
\<close>

lemma pathLoop_acc: "pathLoop E layer idx path = path @ pathLoop E layer idx []"
proof (induction "length layer" arbitrary: layer idx path rule: less_induct)
  case less
  show ?case
  proof (cases "length layer > 1")
    case False
    then show ?thesis by (simp add: pathLoop.simps)
  next
    case True
    then have smaller: "length (nextLayer E layer) < length layer"
      by (simp add: length_nextLayer)
    define s where "s = (if (if idx mod 2 = 0 then idx + 1 else idx - 1) < int (length layer)
                         then [js_index layer (if idx mod 2 = 0 then idx + 1 else idx - 1)] else [])"
    have a: "pathLoop E layer idx path = pathLoop E (nextLayer E layer) (idx div 2) (path @ s)"
      using True by (simp add: pathLoop.simps [of E layer idx path] Let_def s_def)
    have b: "pathLoop E layer idx [] = pathLoop E (nextLayer E layer) (idx div 2) s"
      using True by (simp add: pathLoop.simps [of E layer idx "[]"] Let_def s_def)
    have "pathLoop E (nextLayer E layer) (idx div 2) (path @ s)
            = (path @ s) @ pathLoop E (nextLayer E layer) (idx div 2) []"
      by (rule less [OF smaller])
    moreover have "pathLoop E (nextLayer E layer) (idx div 2) s
            = s @ pathLoop E (nextLayer E layer) (idx div 2) []"
      by (rule less [OF smaller])
    ultimately show ?thesis using a b by simp
  qed
qed

lemma pathLoop_step:
  assumes "length layer > 1"
  shows "pathLoop E layer idx [] =
           (let pairIndex = (if idx mod 2 = 0 then idx + 1 else idx - 1)
            in if pairIndex < int (length layer) then [js_index layer pairIndex] else [])
           @ pathLoop E (nextLayer E layer) (idx div 2) []"
proof -
  have "pathLoop E layer idx [] =
          pathLoop E (nextLayer E layer) (idx div 2)
            (let pairIndex = (if idx mod 2 = 0 then idx + 1 else idx - 1)
             in if pairIndex < int (length layer) then [js_index layer pairIndex] else [])"
    using assms by (simp add: pathLoop.simps [of E layer idx "[]"] Let_def)
  then show ?thesis by (simp only: pathLoop_acc [of E "nextLayer E layer" "idx div 2" "Let _ _"] )
qed

lemma pathLoop_two_valid:
  "pathLoop E [x, y] 0 [] = [Some y]" "pathLoop E [x, y] 1 [] = [Some x]"
  by (simp_all add: pathLoop.simps js_index_def)

lemma pathLoop_two_beyond: "2 \<le> i \<Longrightarrow> pathLoop E [x, y] i [] = []"
proof -
  assume "2 \<le> i"
  then have "\<not> (if i mod 2 = 0 then i + 1 else i - 1) < 2" by presburger
  then show ?thesis by (simp add: pathLoop.simps Let_def)
qed

text \<open>
  Claim C6. For a 33-byte internal key, a tagged hash of 32-byte outputs and a valid
  target index, the control block is the header byte \<open>0xc0 OR parity\<close>, the 32-byte
  x-only key and the recorded siblings in the order the loop recorded them (leaf to
  root), each of 32 bytes; its length is \<open>1 + 32 + 32 * (number of siblings)\<close>, with no
  sibling for a one-leaf tree (33 bytes) and one for a two-leaf tree (65 bytes), where
  it is the leaf hash of the other leaf. From two leaves on, the siblings are the
  neighbour in the leaf layer (when there is one) followed by those recorded for the
  parent in the layers above.
\<close>

theorem computeControlBlockForIndex_layout:
  assumes k: "length k = 33"
    and H: "\<forall>tag msg. length (taggedHash E tag msg) = 32"
    and i0: "0 \<le> i" and i1: "i < int (length ls)"
  shows "\<exists>sibs. recordedSiblings E ls i = map Some sibs \<and> (\<forall>s\<in>set sibs. length s = 32) \<and>
           computeControlBlockForIndex E k ls i =
             Inr ([0xc0 OR (if k ! 0 = 0x03 then 1 else 0)] @ slice 1 33 k @ concat sibs) \<and>
           length (slice 1 33 k) = 32 \<and>
           length ([0xc0 OR (if k ! 0 = 0x03 then 1 else 0)] @ slice 1 33 k @ concat sibs)
             = 1 + 32 + 32 * length sibs \<and>
           (length ls = 1 \<longrightarrow> length sibs = 0) \<and>
           (length ls = 2 \<longrightarrow> length sibs = 1) \<and>
           (\<forall>a b. ls = [a, b] \<longrightarrow> sibs = [tapLeafHash E (if i = 0 then b else a)]) \<and>
           (2 \<le> length ls \<longrightarrow>
              recordedSiblings E ls i =
                (let pairIndex = (if i mod 2 = 0 then i + 1 else i - 1)
                 in if pairIndex < int (length ls)
                    then [js_index (map (tapLeafHash E) ls) pairIndex] else [])
                @ pathLoop E (nextLayer E (map (tapLeafHash E) ls)) (i div 2) [])"
proof -
  have "\<forall>h\<in>set (map (tapLeafHash E) ls). length h = 32"
    using H by (simp add: tapLeafHash_def)
  from pathLoop_Some [OF H i0 this, of "[]"]
  obtain p where p: "pathLoop E (map (tapLeafHash E) ls) i [] = map Some p"
    and pl: "\<forall>s\<in>set p. length s = 32" by auto
  define sibs where "sibs = (if length ls = 1 then [] else p)"
  have r: "recordedSiblings E ls i = map Some sibs"
    by (simp add: recordedSiblings_def sibs_def p)
  have sl: "\<forall>s\<in>set sibs. length s = 32" using pl by (simp add: sibs_def)
  have x: "length (slice 1 33 k) = 32" using k by (simp add: slice_def)
  have cb: "computeControlBlockForIndex E k ls i =
             Inr ([0xc0 OR (if k ! 0 = 0x03 then 1 else 0)] @ slice 1 33 k @ concat sibs)"
    using k by (simp add: computeControlBlockForIndex_def Let_def p sibs_def Buffer_concat_Some)
  have len: "length ([0xc0 OR (if k ! 0 = 0x03 then 1 else 0)] @ slice 1 33 k @ concat sibs)
             = 1 + 32 + 32 * length sibs"
    using x length_concat_const [OF sl] by simp
  have one: "length ls = 1 \<longrightarrow> length sibs = 0" by (simp add: sibs_def)
  have two: "length ls = 2 \<longrightarrow> length sibs = 1"
  proof
    assume l2: "length ls = 2"
    then obtain a b where ab: "ls = [a, b]" by (cases ls; cases "tl ls") auto
    from i0 i1 l2 have "i = 0 \<or> i = 1" by auto
    then have "length (pathLoop E (map (tapLeafHash E) ls) i []) = 1"
      using ab by (auto simp: pathLoop_two_valid)
    then show "length sibs = 1" using l2 by (simp add: sibs_def p)
  qed
  have pair: "\<forall>a b. ls = [a, b] \<longrightarrow> sibs = [tapLeafHash E (if i = 0 then b else a)]"
  proof (intro allI impI)
    fix a b assume ab: "ls = [a, b]"
    with i0 i1 have "i = 0 \<or> i = 1" by auto
    then have "pathLoop E (map (tapLeafHash E) ls) i [] = [Some (tapLeafHash E (if i = 0 then b else a))]"
      using ab by (auto simp: pathLoop_two_valid)
    with p have "map Some p = map Some [tapLeafHash E (if i = 0 then b else a)]" by simp
    then have "p = [tapLeafHash E (if i = 0 then b else a)]"
      by (simp only: inj_map_eq_map [OF inj_Some])
    then show "sibs = [tapLeafHash E (if i = 0 then b else a)]" using ab by (simp add: sibs_def)
  qed
  have order: "2 \<le> length ls \<longrightarrow>
              recordedSiblings E ls i =
                (let pairIndex = (if i mod 2 = 0 then i + 1 else i - 1)
                 in if pairIndex < int (length ls)
                    then [js_index (map (tapLeafHash E) ls) pairIndex] else [])
                @ pathLoop E (nextLayer E (map (tapLeafHash E) ls)) (i div 2) []"
    using pathLoop_step [of "map (tapLeafHash E) ls" E i] by (simp add: recordedSiblings_def)
  from r sl cb x len one two pair order show ?thesis by blast
qed

lemma slice_demoKey:
  "slice 1 33 demoKey = replicate 32 0x11" "slice (Suc 0) 33 demoKey = replicate 32 0x11"
  by (simp_all add: demoKey_def slice_def)

lemma header_demoKey: "[0xc0 OR (if demoKey ! 0 = 0x03 then 1 else 0)] = [0xc1 :: byte]"
  by (simp add: demoKey_def)

theorem computeControlBlockForIndex_layout_witness:
  "length demoKey = 33 \<and> (\<forall>tag msg. length (taggedHash demoExternals tag msg) = 32) \<and>
   (\<exists>cb. computeControlBlockForIndex demoExternals demoKey (info_leaves demoInfo) 1 = Inr cb \<and>
         length cb = 65 \<and> take 33 cb = 0xc1 # replicate 32 0x11)"
proof -
  have k: "length demoKey = 33" by (simp add: demoKey_def)
  have h: "\<forall>tag msg. length (taggedHash demoExternals tag msg) = 32"
    by (simp add: demoExternals_def demoHash_length)
  have l: "length (info_leaves demoInfo) = 2" by (simp add: demoInfo_def)
  have i0: "(0::int) \<le> 1" and i1: "(1::int) < int (length (info_leaves demoInfo))"
    by (simp_all add: l)
  from computeControlBlockForIndex_layout [OF k h i0 i1] l
  obtain sibs where
    cb: "computeControlBlockForIndex demoExternals demoKey (info_leaves demoInfo) 1 =
           Inr ([0xc0 OR (if demoKey ! 0 = 0x03 then 1 else 0)] @ slice 1 33 demoKey @ concat sibs)"
    and len: "length ([0xc0 OR (if demoKey ! 0 = 0x03 then 1 else 0)] @ slice 1 33 demoKey @ concat sibs)
               = 1 + 32 + 32 * length sibs"
    and one: "length sibs = 1" by auto
  have "take 33 ([0xc0 OR (if demoKey ! 0 = 0x03 then 1 else 0)] @ slice 1 33 demoKey @ concat sibs)
          = 0xc1 # replicate 32 0x11"
    unfolding header_demoKey slice_demoKey by simp
  with cb len one k h show ?thesis by simp
qed

text \<open>
  Claim C10. \<open>computeControlBlockForIndex\<close> does not compare \<open>targetIndex\<close> with the
  number of leaves: on a two-leaf tree every index from 2 on returns, without an
  error, the 33 bytes of header and x-only key, with no sibling hash.
\<close>

theorem computeControlBlockForIndex_no_index_check:
  assumes "length k = 33" and "2 \<le> i"
  shows "computeControlBlockForIndex E k [a, b] i =
           Inr ([0xc0 OR (if k ! 0 = 0x03 then 1 else 0)] @ slice 1 33 k) \<and>
         length ([0xc0 OR (if k ! 0 = 0x03 then 1 else 0)] @ slice 1 33 k) = 33"
  using assms by (simp add: computeControlBlockForIndex_def pathLoop_two_beyond slice_def)

theorem computeControlBlockForIndex_no_index_check_witness:
  "length demoKey = 33 \<and> (2 :: int) \<le> 7 \<and>
   computeControlBlockForIndex demoExternals demoKey [[0x20, 0xac], [0x5a, 0xb1, 0x75, 0xac]] 7 =
     Inr (0xc1 # replicate 32 0x11) \<and>
   length (0xc1 # replicate 32 (0x11 :: byte)) = 33"
proof -
  have k: "length demoKey = 33" by (simp add: demoKey_def)
  have i: "(2 :: int) \<le> 7" by simp
  from computeControlBlockForIndex_no_index_check
         [OF k i, of demoExternals "[0x20, 0xac]" "[0x5a, 0xb1, 0x75, 0xac]"]
  show ?thesis using k unfolding header_demoKey slice_demoKey by simp
qed

lemma computeControlBlockForIndex_two:
  assumes "length k = 33"
  shows "computeControlBlockForIndex E k [a, b] 0 =
           Inr ([0xc0 OR (if k ! 0 = 0x03 then 1 else 0)] @ slice 1 33 k @ tapLeafHash E b)"
    and "computeControlBlockForIndex E k [a, b] 1 =
           Inr ([0xc0 OR (if k ! 0 = 0x03 then 1 else 0)] @ slice 1 33 k @ tapLeafHash E a)"
  using assms by (simp_all add: computeControlBlockForIndex_def pathLoop_two_valid)

section \<open>Leaf hash\<close>

lemma spec_compact_size_nonempty: "spec_compact_size n \<noteq> []"
  by (simp add: spec_compact_size_def)

text \<open>
  Claim C1. The claim wants the leaf hash to commit to
  \<open>0xc0 # compact_size (length script) @ script\<close>. \<open>tapLeafHash\<close> hashes \<open>0xc0 # script\<close>:
  the length prefix is missing for every script, so the two messages always differ. For
  the one-byte script \<^verbatim>\<open>51\<close> the code hashes \<^verbatim>\<open>c0 51\<close> where the claim has \<^verbatim>\<open>c0 01 51\<close>,
  and a hash that keeps its message apart tells the two results apart.
\<close>

theorem tapLeafHash_omits_compact_size:
  "tapLeafHash E sc = taggedHash E ''TapLeaf'' ([0xc0] @ sc) \<and>
   [0xc0] @ sc \<noteq> [0xc0] @ spec_compact_size (length sc) @ sc \<and>
   tapLeafHash E [0x51] = taggedHash E ''TapLeaf'' [0xc0, 0x51] \<and>
   spec_LeafHash E [0x51] = taggedHash E ''TapLeaf'' [0xc0, 0x01, 0x51] \<and>
   tapLeafHash demoExternals [0x51] \<noteq> spec_LeafHash demoExternals [0x51]"
proof -
  have "length ([0xc0] @ sc) \<noteq> length ([0xc0] @ spec_compact_size (length sc) @ sc)"
    using spec_compact_size_nonempty [of "length sc"] by simp
  then have ne: "[0xc0] @ sc \<noteq> [0xc0] @ spec_compact_size (length sc) @ sc" by metis
  have a: "tapLeafHash E sc = taggedHash E ''TapLeaf'' ([0xc0] @ sc)"
    by (simp add: tapLeafHash_def)
  have b: "tapLeafHash E [0x51] = taggedHash E ''TapLeaf'' [0xc0, 0x51]"
    by (simp add: tapLeafHash_def)
  have c: "spec_LeafHash E [0x51] = taggedHash E ''TapLeaf'' [0xc0, 0x01, 0x51]"
    by (simp add: spec_LeafHash_def spec_compact_size_def)
  have d: "tapLeafHash demoExternals [0x51] \<noteq> spec_LeafHash demoExternals [0x51]"
    by (simp add: tapLeafHash_def spec_LeafHash_def spec_compact_size_def demoExternals_def demoHash_def)
  from a ne b c d show ?thesis by blast
qed

section \<open>Key tweak\<close>

text \<open>
  Claim C8. For a 32-byte private scalar and a 32-byte x-only key, \<open>tweakPrivateKey\<close>
  adds the tweak \<open>t = taggedHash ''TapTweak'' (internalX @ merkleRoot)\<close> to the scalar
  with one call of \<open>privateAdd\<close>. When that call reports failure the function fails
  with an error; when it succeeds (and the point is computed) the returned public key
  is \<open>pointFromScalar\<close> of the returned private scalar; and every returned result has
  that shape.
\<close>

theorem tweakPrivateKey_result:
  assumes p: "length priv = 32" and x: "length ix = 32"
    and t: "t = taggedHash E ''TapTweak'' (ix @ (case mr of None \<Rightarrow> [] | Some m \<Rightarrow> m))"
  shows "(privateAdd E priv t = None \<longrightarrow>
            tweakPrivateKey E priv ix mr = Inl (Error ''tweak resulted in invalid private key (unlikely)'')) \<and>
         (\<forall>s. privateAdd E priv t = Some s \<and> pointFromScalar E s = None \<longrightarrow>
            tweakPrivateKey E priv ix mr = Inl (Error ''failed to compute tweaked pubkey'')) \<and>
         (\<forall>s pub. privateAdd E priv t = Some s \<and> pointFromScalar E s = Some pub \<longrightarrow>
            (\<exists>r. tweakPrivateKey E priv ix mr = Inr r \<and> key_tweakedPriv r = s \<and> key_tweakedPub r = pub)) \<and>
         (\<forall>r. tweakPrivateKey E priv ix mr = Inr r \<longrightarrow>
            privateAdd E priv t = Some (key_tweakedPriv r) \<and>
            pointFromScalar E (key_tweakedPriv r) = Some (key_tweakedPub r))"
  using p x unfolding t
  by (auto simp: tweakPrivateKey_def Let_def split: option.splits)

theorem tweakPrivateKey_result_witness:
  "(\<exists>r. tweakPrivateKey demoExternals (replicate 32 1) (replicate 32 0x11) (Some []) = Inr r \<and>
        pointFromScalar demoExternals (key_tweakedPriv r) = Some (key_tweakedPub r)) \<and>
   tweakPrivateKey (demoExternals\<lparr>privateAdd := \<lambda>a b. None\<rparr>) (replicate 32 1) (replicate 32 0x11) (Some [])
     = Inl (Error ''tweak resulted in invalid private key (unlikely)'')"
proof -
  have p: "length (replicate 32 (1 :: byte)) = 32" and x: "length (replicate 32 (0x11 :: byte)) = 32"
    by simp_all
  define t where "t = taggedHash demoExternals ''TapTweak''
                        (replicate 32 0x11 @ (case Some [] of None \<Rightarrow> [] | Some m \<Rightarrow> m))"
  define t' where "t' = taggedHash (demoExternals\<lparr>privateAdd := \<lambda>a b. None\<rparr>) ''TapTweak''
                          (replicate 32 0x11 @ (case Some [] of None \<Rightarrow> [] | Some m \<Rightarrow> m))"
  have ok: "privateAdd demoExternals (replicate 32 1) t = Some (map2 (+) (replicate 32 1) t)"
    by (simp add: demoExternals_def)
  have pt: "pointFromScalar demoExternals (map2 (+) (replicate 32 1) t)
              = Some (0x03 # map2 (+) (replicate 32 1) t)"
    by (simp add: demoExternals_def)
  have bad: "privateAdd (demoExternals\<lparr>privateAdd := \<lambda>a b. None\<rparr>) (replicate 32 1) t' = None"
    by simp
  from tweakPrivateKey_result [OF p x t_def] ok pt
  have a: "\<exists>r. tweakPrivateKey demoExternals (replicate 32 1) (replicate 32 0x11) (Some []) = Inr r \<and>
        pointFromScalar demoExternals (key_tweakedPriv r) = Some (key_tweakedPub r)"
    by blast
  from tweakPrivateKey_result [OF p x t'_def] bad
  have b: "tweakPrivateKey (demoExternals\<lparr>privateAdd := \<lambda>a b. None\<rparr>) (replicate 32 1)
             (replicate 32 0x11) (Some [])
     = Inl (Error ''tweak resulted in invalid private key (unlikely)'')"
    by blast
  from a b show ?thesis by blast
qed

section \<open>Spends\<close>

text \<open>
  The transaction \<open>spendCltvLeaf\<close> and \<open>buildAndBroadcastScriptPathSpend\<close> have built
  when they reach \<^verbatim>\<open>tx.toHex()\<close>, for a two-leaf aggregate with a 33-byte internal key
  and arguments that pass the checks of the library.
\<close>

lemma spendCltvLeaf_tx_built:
  assumes k: "length (info_internalPubkeyFull info) = 33"
    and l: "info_leaves info = [l0, l1]"
    and hx: "length (Buffer_from_hex (txid utxo)) = 32"
    and hv: "isUInt32 (vout utxo)"
    and d: "toOutputScript E dest = Inr ds"
    and ha: "isSatoshi (valueSats utxo - fee)"
    and hs: "isSatoshi (valueSats utxo)"
    and u: "skel = \<lparr>version = 2, locktime = info_lockHeight info,
                    ins = [\<lparr>hash = rev (Buffer_from_hex (txid utxo)), index = vout utxo,
                            sequence = 0xfffffffe, witness = []\<rparr>],
                    outs = [\<lparr>script = ds, amount = valueSats utxo - fee\<rparr>]\<rparr>"
    and h: "sighashV1 E skel 0 [l1] [valueSats utxo] SIGHASH_DEFAULT = Inr sighash"
    and g: "signSchnorr E sighash priv = Inr sig"
  shows "spendCltvLeaf_tx E utxo info priv dest fee =
           Inr \<lparr>version = 2, locktime = info_lockHeight info,
                ins = [\<lparr>hash = rev (Buffer_from_hex (txid utxo)), index = vout utxo,
                        sequence = 0xfffffffe,
                        witness =
                          [sig, l1,
                           [0xc0 OR (if info_internalPubkeyFull info ! 0 = 0x03 then 1 else 0)]
                             @ slice 1 33 (info_internalPubkeyFull info) @ tapLeafHash E l0]\<rparr>],
                outs = [\<lparr>script = ds, amount = valueSats utxo - fee\<rparr>]\<rparr>"
  using h g hx hv ha hs unfolding u
  by (simp add: spendCltvLeaf_tx_def l d computeControlBlockForIndex_two [OF k] js_index_def Let_def
      addInput_def addOutput_def setWitness_def newTransaction_def hashForWitnessV1_def
      isUInt32_def SIGHASH_DEFAULT_def)

lemma buildAndBroadcastScriptPathSpend_tx_built:
  assumes k: "length (info_internalPubkeyFull info) = 33"
    and l: "info_leaves info = [l0, l1]"
    and hx: "length (Buffer_from_hex (txid utxo)) = 32"
    and hv: "isUInt32 (vout utxo)"
    and d: "toOutputScript E dest = Inr ds"
    and ha: "isSatoshi (valueSats utxo - fee)"
  shows "buildAndBroadcastScriptPathSpend_tx E utxo info 0 sigs dest fee =
           Inr \<lparr>version = 2, locktime = 0,
                ins = [\<lparr>hash = rev (Buffer_from_hex (txid utxo)), index = vout utxo,
                        sequence = 0xffffffff,
                        witness = sigs @
                          [l0,
                           [0xc0 OR (if info_internalPubkeyFull info ! 0 = 0x03 then 1 else 0)]
                             @ slice 1 33 (info_internalPubkeyFull info) @ tapLeafHash E l1]\<rparr>],
                outs = [\<lparr>script = ds, amount = valueSats utxo - fee\<rparr>]\<rparr>"
  using hx hv ha
  by (simp add: buildAndBroadcastScriptPathSpend_tx_def l d computeControlBlockForIndex_two [OF k]
      js_index_def Let_def addInput_def addOutput_def setWitness_def newTransaction_def isUInt32_def)

lemma demoInfo_facts:
  "length (info_internalPubkeyFull demoInfo) = 33"
  "info_leaves demoInfo = [[0x20, 0xac], [0x5a, 0xb1, 0x75, 0xac]]"
  "info_lockHeight demoInfo = 10"
  "toOutputScript demoExternals demoDestination = Inr demoDestinationScript"
  by (simp_all add: demoInfo_def demoKey_def demoExternals_def)

lemma demoUtxo_facts:
  "length (Buffer_from_hex (txid demoUtxo)) = 32"
  "isUInt32 (vout demoUtxo)"
  "isSatoshi (valueSats demoUtxo - 500)"
  "isSatoshi (valueSats demoUtxo)"
  by (simp_all add: demoUtxo_def hexval_def isUInt32_def isSatoshi_def)

lemma demo_sighash:
  "sighashV1 demoExternals tx i scripts vals t = Inr (take 32 (concat scripts @ replicate 32 0xee))"
  by (simp add: demoExternals_def)

lemma demo_sign:
  "signSchnorr demoExternals dg key = Inr (take 64 (dg @ key @ replicate 64 0))"
  by (simp add: demoExternals_def)

lemma demo_toHex: "toHex demoExternals tx = Inr ''raw''"
  by (simp add: demoExternals_def)

text \<open>
  Claim C2, as stated: with lock height 10, a timelock spend at chain height 9 fails
  with a precondition error. The code builds the witness and hands the transaction to
  the node; with a node that accepts it, the call returns the transaction id.
\<close>

theorem spendCltvLeaf_early_counterexample:
  "getBlockCount demoRpc = 9 \<and> info_lockHeight demoInfo = 10 \<and>
   \<not> isl (spendCltvLeaf_tx demoExternals demoUtxo demoInfo (replicate 32 1) demoDestination 500) \<and>
   spendCltvLeaf demoExternals demoRpc demoUtxo demoInfo (replicate 32 1) demoDestination 500
     = Inr ''txid''"
  using spendCltvLeaf_tx_built [where utxo = demoUtxo and priv = "replicate 32 1" and fee = 500,
          OF demoInfo_facts(1) demoInfo_facts(2) demoUtxo_facts(1) demoUtxo_facts(2)
             demoInfo_facts(4) demoUtxo_facts(3) demoUtxo_facts(4) refl demo_sighash demo_sign]
  by (simp add: spendCltvLeaf_def demoRpc_def demoInfo_facts(3) demo_toHex)

text \<open>
  Claim C2, amended. \<open>spendCltvLeaf\<close> takes no chain height and checks none. For a
  two-leaf aggregate with a 33-byte internal key and lock height \<open>H\<close>, an unspent output
  the library accepts (a 32-byte transaction id, an unsigned 32-bit output index, a
  satoshi value, a fee that leaves a satoshi amount) and a destination that decodes,
  when the sighash computation and the signer return a value it builds the witness
  \<open>[sig, leaf 1, control block]\<close> in a transaction whose locktime is \<open>H\<close> and whose
  input sequence is \<^verbatim>\<open>0xfffffffe\<close>, below the final \<^verbatim>\<open>0xffffffff\<close>, and hands its
  serialisation to the node, whatever height the node is at; the result is the node's
  answer.
\<close>

theorem spendCltvLeaf_no_height_check:
  assumes k: "length (info_internalPubkeyFull info) = 33"
    and l: "info_leaves info = [l0, l1]"
    and hx: "length (Buffer_from_hex (txid utxo)) = 32"
    and hv: "isUInt32 (vout utxo)"
    and d: "toOutputScript E dest = Inr ds"
    and ha: "isSatoshi (valueSats utxo - fee)"
    and hs: "isSatoshi (valueSats utxo)"
    and u: "skel = \<lparr>version = 2, locktime = info_lockHeight info,
                    ins = [\<lparr>hash = rev (Buffer_from_hex (txid utxo)), index = vout utxo,
                            sequence = 0xfffffffe, witness = []\<rparr>],
                    outs = [\<lparr>script = ds, amount = valueSats utxo - fee\<rparr>]\<rparr>"
    and h: "sighashV1 E skel 0 [l1] [valueSats utxo] SIGHASH_DEFAULT = Inr sighash"
    and g: "signSchnorr E sighash priv = Inr sig"
  shows "\<exists>tx cb.
           spendCltvLeaf_tx E utxo info priv dest fee = Inr tx \<and>
           locktime tx = info_lockHeight info \<and>
           map sequence (ins tx) = [0xfffffffe] \<and> (0xfffffffe :: int) < 0xffffffff \<and>
           computeControlBlockForIndex E (info_internalPubkeyFull info) (info_leaves info) 1 = Inr cb \<and>
           map witness (ins tx) = [[sig, l1, cb]] \<and>
           (\<forall>height. spendCltvLeaf E (rpc\<lparr>getBlockCount := height\<rparr>) utxo info priv dest fee
                  = (case toHex E tx of Inl e \<Rightarrow> Inl e | Inr raw \<Rightarrow> sendRawTransaction rpc raw))"
proof -
  let ?cb = "[0xc0 OR (if info_internalPubkeyFull info ! 0 = 0x03 then 1 else 0)]
               @ slice 1 33 (info_internalPubkeyFull info) @ tapLeafHash E l0"
  let ?tx = "\<lparr>version = 2, locktime = info_lockHeight info,
                ins = [\<lparr>hash = rev (Buffer_from_hex (txid utxo)), index = vout utxo,
                        sequence = 0xfffffffe, witness = [sig, l1, ?cb]\<rparr>],
                outs = [\<lparr>script = ds, amount = valueSats utxo - fee\<rparr>]\<rparr>"
  have b: "spendCltvLeaf_tx E utxo info priv dest fee = Inr ?tx"
    by (rule spendCltvLeaf_tx_built [OF k l hx hv d ha hs u h g])
  have c: "computeControlBlockForIndex E (info_internalPubkeyFull info) (info_leaves info) 1 = Inr ?cb"
    by (simp only: l computeControlBlockForIndex_two(2) [OF k])
  have r: "\<forall>height. spendCltvLeaf E (rpc\<lparr>getBlockCount := height\<rparr>) utxo info priv dest fee
                  = (case toHex E ?tx of Inl e \<Rightarrow> Inl e | Inr raw \<Rightarrow> sendRawTransaction rpc raw)"
    by (simp add: spendCltvLeaf_def b split: sum.splits)
  from b c r show ?thesis by (intro exI [of _ ?tx] exI [of _ ?cb]) simp
qed

theorem spendCltvLeaf_no_height_check_witness:
  "\<exists>tx. spendCltvLeaf_tx demoExternals demoUtxo demoInfo (replicate 32 1) demoDestination 500 = Inr tx \<and>
         locktime tx = 10 \<and> map sequence (ins tx) = [0xfffffffe] \<and>
         map (length \<circ> witness) (ins tx) = [3] \<and>
         spendCltvLeaf demoExternals (demoRpc\<lparr>getBlockCount := 9\<rparr>) demoUtxo demoInfo
             (replicate 32 1) demoDestination 500 = Inr ''txid'' \<and>
         spendCltvLeaf demoExternals (demoRpc\<lparr>getBlockCount := 10\<rparr>) demoUtxo demoInfo
             (replicate 32 1) demoDestination 500 = Inr ''txid''"
  using spendCltvLeaf_no_height_check [where utxo = demoUtxo and priv = "replicate 32 1" and fee = 500
          and rpc = demoRpc,
          OF demoInfo_facts(1) demoInfo_facts(2) demoUtxo_facts(1) demoUtxo_facts(2)
             demoInfo_facts(4) demoUtxo_facts(3) demoUtxo_facts(4) refl demo_sighash demo_sign]
  by (auto simp: demoInfo_facts(3) demo_toHex demoRpc_def)

text \<open>
  Claim C3, as stated: a single signature (or a signature that is not 64 bytes long) is
  rejected before a witness is assembled. The code assembles the witness from a single
  64-byte signature, and from a 3-byte one, and submits the transaction.
\<close>

theorem buildAndBroadcastScriptPathSpend_one_sig_counterexample:
  "\<not> isl (buildAndBroadcastScriptPathSpend_tx demoExternals demoUtxo demoInfo 0
            [replicate 64 1] demoDestination 500) \<and>
   buildAndBroadcastScriptPathSpend demoExternals demoRpc demoUtxo demoInfo 0
       [replicate 64 1] demoDestination 500 = Inr ''txid'' \<and>
   \<not> isl (buildAndBroadcastScriptPathSpend_tx demoExternals demoUtxo demoInfo 0
            [[1, 2, 3]] demoDestination 500)"
  using buildAndBroadcastScriptPathSpend_tx_built [where utxo = demoUtxo and sigs = "[replicate 64 1]"
          and fee = 500, OF demoInfo_facts(1) demoInfo_facts(2) demoUtxo_facts(1) demoUtxo_facts(2)
             demoInfo_facts(4) demoUtxo_facts(3)]
    buildAndBroadcastScriptPathSpend_tx_built [where utxo = demoUtxo and sigs = "[[1, 2, 3]]"
          and fee = 500, OF demoInfo_facts(1) demoInfo_facts(2) demoUtxo_facts(1) demoUtxo_facts(2)
             demoInfo_facts(4) demoUtxo_facts(3)]
  by (simp add: buildAndBroadcastScriptPathSpend_def demoRpc_def demo_toHex)

text \<open>
  Claim C3, amended. \<open>buildAndBroadcastScriptPathSpend\<close> does not validate the
  signature list. For the threshold leaf (index 0) of a two-leaf aggregate with a
  33-byte internal key, an unspent output the library accepts (a 32-byte transaction
  id, an unsigned 32-bit output index, a fee that leaves a satoshi amount) and a
  destination that decodes, it assembles the witness \<open>sigs @ [leaf 0, control block]\<close>
  for any list \<open>sigs\<close>, of any length and with elements of any size, and hands the
  serialised transaction to the node. Two signatures with an empty third slot give a
  witness, and so does a single signature.
\<close>

theorem buildAndBroadcastScriptPathSpend_no_sig_check:
  assumes k: "length (info_internalPubkeyFull info) = 33"
    and l: "info_leaves info = [l0, l1]"
    and hx: "length (Buffer_from_hex (txid utxo)) = 32"
    and hv: "isUInt32 (vout utxo)"
    and d: "toOutputScript E dest = Inr ds"
    and ha: "isSatoshi (valueSats utxo - fee)"
  shows "\<exists>tx cb.
           buildAndBroadcastScriptPathSpend_tx E utxo info 0 sigs dest fee = Inr tx \<and>
           computeControlBlockForIndex E (info_internalPubkeyFull info) (info_leaves info) 0 = Inr cb \<and>
           map witness (ins tx) = [sigs @ [l0, cb]] \<and>
           buildAndBroadcastScriptPathSpend E rpc utxo info 0 sigs dest fee
             = (case toHex E tx of Inl e \<Rightarrow> Inl e | Inr raw \<Rightarrow> sendRawTransaction rpc raw)"
proof -
  let ?cb = "[0xc0 OR (if info_internalPubkeyFull info ! 0 = 0x03 then 1 else 0)]
               @ slice 1 33 (info_internalPubkeyFull info) @ tapLeafHash E l1"
  let ?tx = "\<lparr>version = 2, locktime = 0,
                ins = [\<lparr>hash = rev (Buffer_from_hex (txid utxo)), index = vout utxo,
                        sequence = 0xffffffff, witness = sigs @ [l0, ?cb]\<rparr>],
                outs = [\<lparr>script = ds, amount = valueSats utxo - fee\<rparr>]\<rparr>"
  have b: "buildAndBroadcastScriptPathSpend_tx E utxo info 0 sigs dest fee = Inr ?tx"
    by (rule buildAndBroadcastScriptPathSpend_tx_built [OF k l hx hv d ha])
  have c: "computeControlBlockForIndex E (info_internalPubkeyFull info) (info_leaves info) 0 = Inr ?cb"
    by (simp only: l computeControlBlockForIndex_two(1) [OF k])
  have r: "buildAndBroadcastScriptPathSpend E rpc utxo info 0 sigs dest fee
             = (case toHex E ?tx of Inl e \<Rightarrow> Inl e | Inr raw \<Rightarrow> sendRawTransaction rpc raw)"
    by (simp add: buildAndBroadcastScriptPathSpend_def b)
  from b c r show ?thesis by (intro exI [of _ ?tx] exI [of _ ?cb]) simp
qed

theorem buildAndBroadcastScriptPathSpend_no_sig_check_witness:
  "(\<exists>tx cb. buildAndBroadcastScriptPathSpend_tx demoExternals demoUtxo demoInfo 0
               [replicate 64 1, replicate 64 2, []] demoDestination 500 = Inr tx \<and>
            map witness (ins tx) = [[replicate 64 1, replicate 64 2, [], [0x20, 0xac], cb]]) \<and>
   (\<exists>tx cb. buildAndBroadcastScriptPathSpend_tx demoExternals demoUtxo demoInfo 0
               [replicate 64 1] demoDestination 500 = Inr tx \<and>
            map witness (ins tx) = [[replicate 64 1, [0x20, 0xac], cb]])"
  using buildAndBroadcastScriptPathSpend_no_sig_check [where utxo = demoUtxo
          and sigs = "[replicate 64 1, replicate 64 2, []]" and fee = 500 and rpc = demoRpc,
          OF demoInfo_facts(1) demoInfo_facts(2) demoUtxo_facts(1) demoUtxo_facts(2)
             demoInfo_facts(4) demoUtxo_facts(3)]
    buildAndBroadcastScriptPathSpend_no_sig_check [where utxo = demoUtxo
          and sigs = "[replicate 64 1]" and fee = 500 and rpc = demoRpc,
          OF demoInfo_facts(1) demoInfo_facts(2) demoUtxo_facts(1) demoUtxo_facts(2)
             demoInfo_facts(4) demoUtxo_facts(3)]
  by auto

text \<open>
  Claim C7. The claim wants the key-path spend to sign the sighash computed with the
  empty script list and to put that one signature in the witness. \<open>spendKeyPath\<close>
  asks for the sighash of its one-input transaction with no script and one value, which
  the library refuses: whatever the arguments, the function ends in an error, sets no
  witness and submits nothing. For a well-formed request the error is the one of
  \<^verbatim>\<open>hashForWitnessV1\<close>.
\<close>

theorem spendKeyPath_sighash_rejected:
  "isl (spendKeyPath_tx E utxo priv info dest fee) \<and>
   isl (spendKeyPath E rpc utxo priv info dest fee) \<and>
   spendKeyPath_tx demoExternals demoUtxo (replicate 32 1) demoInfo demoDestination 500
     = Inl (Error ''Must supply prevout script and value for all inputs'') \<and>
   spendKeyPath demoExternals demoRpc demoUtxo (replicate 32 1) demoInfo demoDestination 500
     = Inl (Error ''Must supply prevout script and value for all inputs'')"
proof -
  have a: "isl (spendKeyPath_tx E utxo priv info dest fee)"
    by (auto simp: spendKeyPath_tx_def Let_def addInput_def addOutput_def hashForWitnessV1_def
        newTransaction_def split: sum.splits if_splits)
  then have b: "isl (spendKeyPath E rpc utxo priv info dest fee)"
    by (auto simp: spendKeyPath_def split: sum.splits)
  have x: "length (info_internalX demoInfo) = 32" by (simp add: demoInfo_def slice_demoKey)
  have "\<exists>tw. tweakPrivateKey demoExternals (replicate 32 1) (info_internalX demoInfo)
              (Some (case info_merkleRoot demoInfo of None \<Rightarrow> [] | Some m \<Rightarrow> m)) = Inr tw"
    using x by (simp add: tweakPrivateKey_def demoExternals_def Let_def)
  then obtain tw where tw: "tweakPrivateKey demoExternals (replicate 32 1) (info_internalX demoInfo)
              (Some (case info_merkleRoot demoInfo of None \<Rightarrow> [] | Some m \<Rightarrow> m)) = Inr tw"
    by blast
  have c: "spendKeyPath_tx demoExternals demoUtxo (replicate 32 1) demoInfo demoDestination 500
     = Inl (Error ''Must supply prevout script and value for all inputs'')"
    using demoUtxo_facts
    by (simp add: spendKeyPath_tx_def tw demoInfo_facts(4) Let_def addInput_def addOutput_def
        hashForWitnessV1_def newTransaction_def isUInt32_def SIGHASH_DEFAULT_def)
  then have d: "spendKeyPath demoExternals demoRpc demoUtxo (replicate 32 1) demoInfo demoDestination 500
     = Inl (Error ''Must supply prevout script and value for all inputs'')"
    by (simp add: spendKeyPath_def)
  from a b c d show ?thesis by blast
qed

end
